theory Spec2Isabelle
  imports Main "HOL-Library.Sublist"
begin

section \<open>Data model\<close>

text \<open>
  A task is the object \<^verbatim>\<open>{ id, title, done }\<close> that \<^verbatim>\<open>handleAddTodo\<close> builds (App.jsx,
  line 65) and that the prop types of TodoItem declare: two strings and a boolean.
  The field names carry the suffix \<open>_t\<close> (\<open>id\<close> is the identity function of HOL and
  \<open>title\<close> is also a state variable of the form).

  A \<open>string\<close> is a list of characters; a character stands for one code unit of a
  JavaScript string below \<open>0x100\<close>.
\<close>

record task =
  id_t :: string
  title_t :: string
  done_t :: bool

text \<open>
  The two \<^verbatim>\<open>useState\<close> cells of \<^verbatim>\<open>App\<close>: the task array \<^verbatim>\<open>todos\<close> and the string
  \<^verbatim>\<open>filter\<close> (suffixed, \<open>filter\<close> is the list function of HOL).
\<close>

record app_state =
  todos :: "task list"
  filter_v :: string

text \<open>The two \<^verbatim>\<open>useState\<close> cells of \<^verbatim>\<open>TodoForm\<close>: the input's text and the message.\<close>

record todo_form =
  title :: string
  error :: string

section \<open>The operations of App\<close>

text \<open>
  \<^verbatim>\<open>const newTodo = { id: crypto.randomUUID(), title, done: false };\<close>
  \<^verbatim>\<open>setTodos(prev => [...prev, newTodo]);\<close>
  The value that \<^verbatim>\<open>crypto.randomUUID()\<close> returns is the argument \<open>uuid\<close>.
\<close>

definition handleAddTodo :: "string \<Rightarrow> string \<Rightarrow> app_state \<Rightarrow> app_state" where
  "handleAddTodo uuid ttl s =
     (let newTodo = \<lparr>id_t = uuid, title_t = ttl, done_t = False\<rparr>
      in s\<lparr>todos := todos s @ [newTodo]\<rparr>)"

text \<open>\<^verbatim>\<open>setTodos(prev => prev.map(t => t.id === id ? { ...t, done: !t.done } : t));\<close>\<close>

definition handleToggleTodo :: "string \<Rightarrow> app_state \<Rightarrow> app_state" where
  "handleToggleTodo i s =
     s\<lparr>todos := map (\<lambda>t. if id_t t = i then t\<lparr>done_t := \<not> done_t t\<rparr> else t) (todos s)\<rparr>"

text \<open>\<^verbatim>\<open>setTodos(prev => prev.filter(t => t.id !== id));\<close>\<close>

definition handleDeleteTodo :: "string \<Rightarrow> app_state \<Rightarrow> app_state" where
  "handleDeleteTodo i s = s\<lparr>todos := filter (\<lambda>t. id_t t \<noteq> i) (todos s)\<rparr>"

text \<open>\<^verbatim>\<open>setFilter\<close>, handed to FilterBar as \<^verbatim>\<open>onFilterChange\<close>.\<close>

definition setFilter :: "string \<Rightarrow> app_state \<Rightarrow> app_state" where
  "setFilter f s = s\<lparr>filter_v := f\<rparr>"

text \<open>
  \<^verbatim>\<open>todos.filter(todo => { if (filter === "active") return !todo.done;\<close>
  \<^verbatim>\<open>                        if (filter === "done") return todo.done; return true; })\<close>
\<close>

definition filteredTodos :: "app_state \<Rightarrow> task list" where
  "filteredTodos s =
     filter (\<lambda>todo. if filter_v s = ''active'' then \<not> done_t todo
                     else if filter_v s = ''done'' then done_t todo
                     else True) (todos s)"

text \<open>\<^verbatim>\<open>todos.filter(t => !t.done).length\<close> and \<^verbatim>\<open>todos.filter(t => t.done).length\<close>.\<close>

definition pendingCount :: "app_state \<Rightarrow> nat" where
  "pendingCount s = length (filter (\<lambda>t. \<not> done_t t) (todos s))"

definition doneCount :: "app_state \<Rightarrow> nat" where
  "doneCount s = length (filter (\<lambda>t. done_t t) (todos s))"

section \<open>The form: trimming and validation\<close>

text \<open>
  \<^verbatim>\<open>String.prototype.trim\<close> removes white space and line terminators from both ends.
  Among the code units a character can hold these are TAB, LF, VT, FF, CR, the space and
  the no-break space.
\<close>

definition js_whitespace :: "char \<Rightarrow> bool" where
  "js_whitespace c \<longleftrightarrow>
     c \<in> set [CHR 0x09, CHR 0x0A, CHR 0x0B, CHR 0x0C, CHR 0x0D, CHR 0x20, CHR 0xA0]"

definition trim :: "string \<Rightarrow> string" where
  "trim s = rev (dropWhile js_whitespace (rev (dropWhile js_whitespace s)))"

text \<open>The message of \<^verbatim>\<open>setError\<close>; its two accented letters are the code unit \<open>0xED\<close>.\<close>

definition empty_title_message :: string where
  "empty_title_message =
     ''El t'' @ [CHR 0xED] @ ''tulo no puede estar vac'' @ [CHR 0xED] @ ''o''"

text \<open>
  \<^verbatim>\<open>handleSubmit\<close> of TodoForm, with \<^verbatim>\<open>onAdd\<close> bound to \<^verbatim>\<open>handleAddTodo\<close> as App does:
  \<^verbatim>\<open>
  const trimmedTitle = title.trim();
  if (!trimmedTitle) { setError("..."); return; }
  onAdd(trimmedTitle); setTitle(""); setError("");
  \<close>
  It steps the pair of the form's state and the application's state.
\<close>

definition handleSubmit :: "string \<Rightarrow> todo_form \<times> app_state \<Rightarrow> todo_form \<times> app_state" where
  "handleSubmit uuid fs =
     (case fs of (f, s) \<Rightarrow>
        (let trimmedTitle = trim (title f)
         in if trimmedTitle = []
            then (f\<lparr>error := empty_title_message\<rparr>, s)
            else (f\<lparr>title := [], error := []\<rparr>, handleAddTodo uuid trimmedTitle s)))"

section \<open>Initialisation from local storage\<close>

text \<open>
  \<^verbatim>\<open>localStorage.getItem(key)\<close> gives the stored string or \<^verbatim>\<open>null\<close>: a map from keys to
  strings. \<^verbatim>\<open>JSON.parse\<close> belongs to the platform and is a parameter of the model:
  \<open>None\<close> where it throws its \<^verbatim>\<open>SyntaxError\<close>, \<open>Some ts\<close> where the text decodes to the
  array of task objects \<open>ts\<close>. (A text that decodes to another kind of value has no
  counterpart in the typed state.)
\<close>

type_synonym storage = "string \<rightharpoonup> string"

datatype js_error = SyntaxError

text \<open>
  The body of the \<^verbatim>\<open>try\<close> block (lines 27 and 28):
  \<^verbatim>\<open>const saved = localStorage.getItem("todos"); return saved ? JSON.parse(saved) : [];\<close>
  \<^verbatim>\<open>null\<close> and the empty string are the falsy values of \<^verbatim>\<open>saved\<close>.
\<close>

definition todos_try_body :: "(string \<Rightarrow> task list option) \<Rightarrow> storage \<Rightarrow> js_error + task list" where
  "todos_try_body JSON_parse localStorage =
     (case localStorage ''todos'' of
        None \<Rightarrow> Inr []
      | Some saved \<Rightarrow>
          if saved = [] then Inr []
          else (case JSON_parse saved of None \<Rightarrow> Inl SyntaxError | Some v \<Rightarrow> Inr v))"

text \<open>The initialiser of \<^verbatim>\<open>todos\<close>: the \<^verbatim>\<open>try\<close> block with its \<^verbatim>\<open>catch { return []; }\<close>.\<close>

definition init_todos :: "(string \<Rightarrow> task list option) \<Rightarrow> storage \<Rightarrow> js_error + task list" where
  "init_todos JSON_parse localStorage =
     (case todos_try_body JSON_parse localStorage of
        Inl e \<Rightarrow> Inr []
      | Inr v \<Rightarrow> Inr v)"

text \<open>
  The initialiser of \<^verbatim>\<open>filter\<close> (lines 38 and 39):
  \<^verbatim>\<open>const saved = localStorage.getItem("filter"); return saved || "all";\<close>
\<close>

definition init_filter :: "storage \<Rightarrow> js_error + string" where
  "init_filter localStorage =
     (case localStorage ''filter'' of
        None \<Rightarrow> Inr ''all''
      | Some saved \<Rightarrow> Inr (if saved = [] then ''all'' else saved))"

text \<open>The first render of App runs the two initialisers in this order.\<close>

definition init_app :: "(string \<Rightarrow> task list option) \<Rightarrow> storage \<Rightarrow> js_error + app_state" where
  "init_app JSON_parse localStorage =
     (case init_todos JSON_parse localStorage of
        Inl e \<Rightarrow> Inl e
      | Inr ts \<Rightarrow>
          (case init_filter localStorage of
             Inl e \<Rightarrow> Inl e
           | Inr f \<Rightarrow> Inr \<lparr>todos = ts, filter_v = f\<rparr>))"

section \<open>Sequences of user actions\<close>

text \<open>
  App hands its handlers to the children (\<^verbatim>\<open>onAdd\<close>, \<^verbatim>\<open>onToggle\<close>, \<^verbatim>\<open>onDelete\<close>,
  \<^verbatim>\<open>onFilterChange\<close>); each user action calls one of them. \<open>Add\<close> carries the value
  that \<^verbatim>\<open>crypto.randomUUID()\<close> returns in that call and the title.
\<close>

datatype action = Add string string | Toggle string | Delete string | SetFilter string

fun dispatch :: "action \<Rightarrow> app_state \<Rightarrow> app_state" where
  "dispatch (Add uuid ttl) s = handleAddTodo uuid ttl s"
| "dispatch (Toggle i) s = handleToggleTodo i s"
| "dispatch (Delete i) s = handleDeleteTodo i s"
| "dispatch (SetFilter f) s = setFilter f s"

fun run :: "action list \<Rightarrow> app_state \<Rightarrow> app_state" where
  "run [] s = s"
| "run (a # as) s = run as (dispatch a s)"


section \<open>Example states and stores\<close>

definition sample_state :: app_state where
  "sample_state =
     \<lparr>todos = [\<lparr>id_t = ''a'', title_t = ''Buy milk'', done_t = False\<rparr>,
               \<lparr>id_t = ''b'', title_t = ''Walk dog'', done_t = True\<rparr>],
      filter_v = ''all''\<rparr>"

text \<open>A store whose task entry is not JSON and whose filter entry is no filter name.\<close>

definition bogus_storage :: storage where
  "bogus_storage = [''todos'' \<mapsto> ''{oops'', ''filter'' \<mapsto> ''bogus'']"





section \<open>Facts about the two list traversals\<close>


lemma toggle_absent_map:
  "i \<notin> id_t ` set xs \<Longrightarrow>
   map (\<lambda>t. if id_t t = i then t\<lparr>done_t := \<not> done_t t\<rparr> else t) xs = xs"
  by (induction xs) auto



lemma delete_absent_filter:
  "i \<notin> id_t ` set xs \<Longrightarrow> filter (\<lambda>t. id_t t \<noteq> i) xs = xs"
  by (induction xs) auto

lemma count_list_filter_if:
  "count_list (filter P xs) u = (if P u then count_list xs u else 0)"
  by (induction xs) auto




text \<open>
  The scenario of the specification: from the empty list, add ``Buy milk'' and
  ``Walk dog'', toggle the first, show the done ones.
\<close>

lemma scenario_buy_milk:
  "filteredTodos (run [Add ''1'' ''Buy milk'', Add ''2'' ''Walk dog'', Toggle ''1'',
        SetFilter ''done''] \<lparr>todos = [], filter_v = ''all''\<rparr>)
     = [\<lparr>id_t = ''1'', title_t = ''Buy milk'', done_t = True\<rparr>]
   \<and> pendingCount (run [Add ''1'' ''Buy milk'', Add ''2'' ''Walk dog'', Toggle ''1'',
        SetFilter ''done''] \<lparr>todos = [], filter_v = ''all''\<rparr>) = 1
   \<and> doneCount (run [Add ''1'' ''Buy milk'', Add ''2'' ''Walk dog'', Toggle ''1'',
        SetFilter ''done''] \<lparr>todos = [], filter_v = ''all''\<rparr>) = 1"
  by (simp add: handleAddTodo_def handleToggleTodo_def setFilter_def filteredTodos_def
      pendingCount_def doneCount_def)

section \<open>Adding a task\<close>



text \<open>
  Claim C2. When the text of the input is empty after trimming (the empty text, or
  blanks only), submitting the form leaves the application's state as it was, sets the
  form's error message, which is not empty, and leaves the text of the input as typed.
\<close>

theorem empty_title_rejected:
  assumes "trim (title f) = []"
  shows "snd (handleSubmit uuid (f, s)) = s
    \<and> error (fst (handleSubmit uuid (f, s))) = empty_title_message
    \<and> empty_title_message \<noteq> []
    \<and> title (fst (handleSubmit uuid (f, s))) = title f"
  using assms by (simp add: handleSubmit_def empty_title_message_def)

theorem empty_title_rejected_witness:
  "trim (title \<lparr>title = ''   '', error = []\<rparr>) = []
   \<and> trim (title \<lparr>title = [], error = []\<rparr>) = []
   \<and> handleSubmit ''c'' (\<lparr>title = ''   '', error = []\<rparr>, sample_state)
       = (\<lparr>title = ''   '', error = empty_title_message\<rparr>, sample_state)
   \<and> handleSubmit ''c'' (\<lparr>title = [], error = []\<rparr>, sample_state)
       = (\<lparr>title = [], error = empty_title_message\<rparr>, sample_state)"
  using empty_title_rejected [of "\<lparr>title = ''   '', error = []\<rparr>" "''c''" sample_state]
    empty_title_rejected [of "\<lparr>title = [], error = []\<rparr>" "''c''" sample_state]
  by (simp add: handleSubmit_def trim_def js_whitespace_def)

section \<open>Toggling and deleting\<close>





section \<open>The filtered view\<close>

text \<open>
  Claim C5. The view handed to TodoList is, under the filter \<open>active\<close>, the tasks with
  \<open>done\<close> false, under \<open>done\<close> the tasks with \<open>done\<close> true, and under \<open>all\<close> the whole
  array; each time in the order of the array, of which the view is a subsequence, and
  with every selected task as often as the array has it and no other task. The view is
  a value computed from the state, which it does not change.
\<close>

theorem filtered_view:
  "(filter_v s = ''active'' \<longrightarrow>
      filteredTodos s = filter (\<lambda>t. done_t t = False) (todos s)
      \<and> (\<forall>t. count_list (filteredTodos s) t
               = (if done_t t = False then count_list (todos s) t else 0)))
   \<and> (filter_v s = ''done'' \<longrightarrow>
      filteredTodos s = filter (\<lambda>t. done_t t = True) (todos s)
      \<and> (\<forall>t. count_list (filteredTodos s) t
               = (if done_t t = True then count_list (todos s) t else 0)))
   \<and> (filter_v s = ''all'' \<longrightarrow> filteredTodos s = todos s)
   \<and> subseq (filteredTodos s) (todos s)"
proof -
  have act: "filteredTodos s = filter (\<lambda>t. done_t t = False) (todos s)"
    if "filter_v s = ''active''"
    using that by (simp add: filteredTodos_def)
  have don: "filteredTodos s = filter (\<lambda>t. done_t t = True) (todos s)"
    if "filter_v s = ''done''"
    using that by (simp add: filteredTodos_def)
  have all: "filteredTodos s = todos s" if "filter_v s = ''all''"
    using that by (simp add: filteredTodos_def)
  have sub: "subseq (filteredTodos s) (todos s)"
    unfolding filteredTodos_def by (rule subseq_filter_left)
  from act don all sub show ?thesis
    by (simp add: count_list_filter_if)
qed

theorem filtered_view_witness:
  "filteredTodos (setFilter ''active'' sample_state)
      = [\<lparr>id_t = ''a'', title_t = ''Buy milk'', done_t = False\<rparr>]
   \<and> filteredTodos (setFilter ''done'' sample_state)
      = [\<lparr>id_t = ''b'', title_t = ''Walk dog'', done_t = True\<rparr>]
   \<and> filteredTodos (setFilter ''all'' sample_state) = todos sample_state"
  using filtered_view [of "setFilter ''active'' sample_state"]
    filtered_view [of "setFilter ''done'' sample_state"]
    filtered_view [of "setFilter ''all'' sample_state"]
  by (simp add: setFilter_def sample_state_def)

section \<open>Counters\<close>

text \<open>
  Claim C6. In every state the number of pending tasks (\<open>done\<close> false) plus the number
  of completed tasks (\<open>done\<close> true), both counted over the whole unfiltered array, is the
  number of tasks.
\<close>

theorem counts_sum_total:
  "pendingCount s = length (filter (\<lambda>t. done_t t = False) (todos s))
   \<and> doneCount s = length (filter (\<lambda>t. done_t t = True) (todos s))
   \<and> pendingCount s + doneCount s = length (todos s)"
proof -
  have "length (filter (\<lambda>t. done_t t) (todos s))
        + length (filter (\<lambda>t. \<not> done_t t) (todos s)) = length (todos s)"
    by (rule sum_length_filter_compl)
  then show ?thesis
    by (simp add: pendingCount_def doneCount_def add.commute)
qed

section \<open>Initialisation\<close>




section \<open>Unique ids\<close>




section \<open>Unknown ids and unknown filters\<close>

text \<open>
  Claim C9. When no task of the array has the id \<open>X\<close>, toggling \<open>X\<close> and deleting \<open>X\<close>
  both return the state they were given: nothing changes and nothing is raised.
\<close>

theorem unknown_id_noop:
  assumes "X \<notin> id_t ` set (todos s)"
  shows "handleToggleTodo X s = s \<and> handleDeleteTodo X s = s"
  using assms
  by (simp add: handleToggleTodo_def handleDeleteTodo_def toggle_absent_map
      delete_absent_filter)

theorem unknown_id_noop_witness:
  "''zz'' \<notin> id_t ` set (todos sample_state)
   \<and> handleToggleTodo ''zz'' sample_state = sample_state
   \<and> handleDeleteTodo ''zz'' sample_state = sample_state"
  using unknown_id_noop [of "''zz''" sample_state]
  by (simp add: sample_state_def)

text \<open>
  Claim C10. Under every filter string other than \<open>active\<close> and \<open>done\<close> the view is
  the whole array in its order. This covers the filter that initialisation takes from
  the store: whenever the stored filter is neither of the two names, the first view
  shows every task.
\<close>

theorem other_filter_shows_all:
  "(filter_v s \<noteq> ''active'' \<and> filter_v s \<noteq> ''done'' \<longrightarrow> filteredTodos s = todos s)
   \<and> (\<forall>s0. init_app JSON_parse localStorage = Inr s0
          \<and> localStorage ''filter'' \<noteq> Some ''active''
          \<and> localStorage ''filter'' \<noteq> Some ''done''
        \<longrightarrow> filteredTodos s0 = todos s0)"
  by (auto simp: filteredTodos_def init_app_def init_filter_def
      split: option.splits sum.splits if_splits)

theorem other_filter_shows_all_witness:
  "filter_v (setFilter ''bogus'' sample_state) \<noteq> ''active''
   \<and> filter_v (setFilter ''bogus'' sample_state) \<noteq> ''done''
   \<and> filteredTodos (setFilter ''bogus'' sample_state) = todos sample_state
   \<and> init_app (\<lambda>txt. None) bogus_storage = Inr \<lparr>todos = [], filter_v = ''bogus''\<rparr>
   \<and> bogus_storage ''filter'' \<noteq> Some ''active''
   \<and> bogus_storage ''filter'' \<noteq> Some ''done''
   \<and> filteredTodos \<lparr>todos = [], filter_v = ''bogus''\<rparr> = []"
  using other_filter_shows_all [where s = "setFilter ''bogus'' sample_state"
      and JSON_parse = "\<lambda>txt. None" and localStorage = bogus_storage]
  by (simp add: setFilter_def sample_state_def bogus_storage_def init_app_def init_todos_def
      todos_try_body_def init_filter_def)

end
